theory Spec2Isabelle
  imports Main "HOL-Library.AList" "HOL-Library.Sublist"
begin

section \<open>JavaScript values\<close>

text \<open>
  The numbers of the model are the safe integers of JavaScript, the integers strictly
  between \<open>- 2 ^ 53\<close> and \<open>2 ^ 53\<close>, and \<open>NaN\<close>. On the safe integers the double
  arithmetic of the runtime is exact and \<open>String(n)\<close> is the decimal numeral of \<open>n\<close>.
  Fractions and larger numbers are not values of the model.
\<close>

definition safe :: "int \<Rightarrow> bool" where
  "safe n = (- (2 ^ 53) < n \<and> n < 2 ^ 53)"

typedef safe_int = "{n :: int. safe n}"
  by (rule exI [of _ 0]) (simp add: safe_def)

text \<open>
  The entities of the application (candidates, roles, matches, offers) are plain JavaScript
  objects that arrive as JSON. An object is an association list from property names to
  values, in insertion order.
\<close>

datatype json =
    JUndefined
  | JNull
  | JBool bool
  | JNum safe_int
  | JNaN
  | JStr string
  | JArr "json list"
  | JObj "(string \<times> json) list"

type_synonym obj = "(string \<times> json) list"

text \<open>The number \<open>n\<close> as a value, for a safe \<open>n\<close>.\<close>

abbreviation num :: "int \<Rightarrow> json" where
  "num n \<equiv> JNum (Abs_safe_int n)"

text \<open>Truthiness, as used by \<open>if (x)\<close>, \<open>x || y\<close> and \<open>x && y\<close>.\<close>

fun truthy :: "json \<Rightarrow> bool" where
  "truthy JUndefined = False"
| "truthy JNull = False"
| "truthy (JBool b) = b"
| "truthy (JNum n) = (Rep_safe_int n \<noteq> 0)"
| "truthy JNaN = False"
| "truthy (JStr t) = (t \<noteq> [])"
| "truthy (JArr _) = True"
| "truthy (JObj _) = True"

text \<open>\<open>a || b\<close>\<close>

definition js_or :: "json \<Rightarrow> json \<Rightarrow> json" where
  "js_or a b = (if truthy a then a else b)"

text \<open>Property read \<open>o.k\<close> on an object: \<open>undefined\<close> when the property is absent.\<close>

definition get :: "string \<Rightarrow> obj \<Rightarrow> json" where
  "get k ob = (case map_of ob k of None \<Rightarrow> JUndefined | Some v \<Rightarrow> v)"

text \<open>
  Optional chaining \<open>v?.k\<close> on a value: \<open>undefined\<close> on \<open>null\<close> and \<open>undefined\<close>, and
  on the primitives, none of which carries the properties read here.
\<close>

definition opt_get :: "string \<Rightarrow> json \<Rightarrow> json" where
  "opt_get k v = (case v of JObj ob \<Rightarrow> get k ob | _ \<Rightarrow> JUndefined)"

text \<open>
  Strict equality \<open>a === b\<close>. Primitives are compared by value and \<open>NaN\<close> equals nothing.
  Objects and arrays are compared by reference; the operands compared here always come
  from different documents (a stored entity against a reply or an argument), so they are
  never the same reference.
\<close>

fun strict_eq :: "json \<Rightarrow> json \<Rightarrow> bool" where
  "strict_eq JUndefined JUndefined = True"
| "strict_eq JNull JNull = True"
| "strict_eq (JBool a) (JBool b) = (a = b)"
| "strict_eq (JNum a) (JNum b) = (a = b)"
| "strict_eq (JStr a) (JStr b) = (a = b)"
| "strict_eq _ _ = False"

text \<open>
  Object spread: \<open>{...a, k: v}\<close> is \<open>AList.update k v a\<close> (an existing property keeps its
  place, a new one is appended), and \<open>{...a, ...b}\<close> copies the properties of \<open>b\<close> over
  those of \<open>a\<close> from left to right.
\<close>

definition spread :: "obj \<Rightarrow> obj \<Rightarrow> obj" where
  "spread a b = fold (\<lambda>(k, v). AList.update k v) b a"

section \<open>Replies of the service gateway\<close>

text \<open>
  A call of one of the services either resolves with \<open>response.data\<close> or rejects with the
  error object the response interceptor has annotated. The callers read one property of
  that error, \<open>userMessage\<close>; it is absent (\<open>None\<close>) on an error that did not pass through
  the interceptor.
\<close>

datatype api_error = ApiError (userMessage: "string option")

datatype 'a outcome = Rejected api_error | Resolved 'a

text \<open>Truthiness of a nullable string, and \<open>m || d\<close> with a string literal \<open>d\<close>.\<close>

definition truthy_str :: "string option \<Rightarrow> bool" where
  "truthy_str m = (case m of None \<Rightarrow> False | Some t \<Rightarrow> t \<noteq> [])"

definition or_else :: "string option \<Rightarrow> string \<Rightarrow> string" where
  "or_else m d = (case m of None \<Rightarrow> d | Some t \<Rightarrow> if t = [] then d else t)"

section \<open>The shared store (AppContext)\<close>

text \<open>The seven \<open>useState\<close> cells of \<open>AppProvider\<close>.\<close>

record store =
  candidates :: "obj list"
  roles :: "obj list"
  matches :: "obj list"
  offers :: "obj list"
  loading :: bool
  error :: "string option"
  useFallbackData :: bool

text \<open>The initial values given to \<open>useState\<close>: the store as the first render sees it.\<close>

definition initial_store :: store where
  "initial_store =
     \<lparr>candidates = [], roles = [], matches = [], offers = [],
      loading = True, error = None, useFallbackData = False\<rparr>"

subsection \<open>mockData\<close>

definition mockData_candidates :: "obj list" where
  "mockData_candidates =
     [[(''_id'', JStr ''mock1''), (''name'', JStr ''Alex Johnson''),
       (''email'', JStr ''alex@example.com''),
       (''skills'', JArr [JStr ''React'', JStr ''Node.js'']),
       (''experience'', JStr ''5 years'')],
      [(''_id'', JStr ''mock2''), (''name'', JStr ''Maria Garcia''),
       (''email'', JStr ''maria@example.com''),
       (''skills'', JArr [JStr ''Python'', JStr ''Data Science'']),
       (''experience'', JStr ''3 years'')]]"

definition mockData_roles :: "obj list" where
  "mockData_roles =
     [[(''_id'', JStr ''mock1''), (''title'', JStr ''Frontend Developer''),
       (''department'', JStr ''Engineering''),
       (''required_skills'', JArr [JStr ''JavaScript'', JStr ''React'']),
       (''is_active'', JBool True)],
      [(''_id'', JStr ''mock2''), (''title'', JStr ''Data Scientist''),
       (''department'', JStr ''Analytics''),
       (''required_skills'', JArr [JStr ''Python'', JStr ''Machine Learning'']),
       (''is_active'', JBool True)]]"

definition mockData_matches :: "obj list" where
  "mockData_matches =
     [[(''_id'', JStr ''mock1''), (''candidate_id'', JStr ''mock1''),
       (''role_id'', JStr ''mock1''), (''match_score'', num 85),
       (''status'', JStr ''Matched'')],
      [(''_id'', JStr ''mock2''), (''candidate_id'', JStr ''mock2''),
       (''role_id'', JStr ''mock2''), (''match_score'', num 92),
       (''status'', JStr ''Matched'')]]"

definition mockData_offers :: "obj list" where
  "mockData_offers =
     [[(''_id'', JStr ''mock1''), (''candidate_id'', JStr ''mock1''),
       (''role_id'', JStr ''mock1''), (''match_score'', num 85),
       (''status'', JStr ''Pending Approval''),
       (''offer'', JObj [(''base_salary'', num 100000), (''bonus'', num 10000),
                         (''equity'', JStr ''1%''), (''total_ctc'', num 110000)])]]"

subsection \<open>Bootstrap: fetchInitialData\<close>

text \<open>
  The handler of each of the four guarded fetches:
  \<open>if (err.userMessage) { setError(prev => prev || err.userMessage); }\<close>.
  The updater function sees the current value of the cell.
\<close>

definition catch_fetch :: "api_error \<Rightarrow> store \<Rightarrow> store" where
  "catch_fetch err s =
     (if truthy_str (userMessage err)
      then s\<lparr>error := (if truthy_str (error s) then error s else userMessage err)\<rparr>
      else s)"

text \<open>
  One guarded fetch: the local variable starts as \<open>[]\<close> and is overwritten only when the
  call resolves.
\<close>

definition guarded_fetch :: "obj list outcome \<Rightarrow> store \<Rightarrow> obj list \<times> store" where
  "guarded_fetch reply s =
     (case reply of
        Resolved d \<Rightarrow> (d, s)
      | Rejected err \<Rightarrow> ([], catch_fetch err s))"

text \<open>
  \<open>fetchInitialData\<close> is created inside an effect with an empty dependency list, so the
  identifiers \<open>error\<close>, \<open>candidates\<close>, ... of its body are the constants of the render that
  created the effect; the state setters act on the live cells. The first argument \<open>r\<close> is
  that render, the second to fifth are the replies of \<open>getCandidates\<close>, \<open>getRoles\<close>,
  \<open>getMatches\<close> and \<open>getOffers\<close>. The test \<open>if (!error)\<close> of the fallback branch reads \<open>r\<close>.

  The replies are arrays, so reading \<open>.length\<close> cannot raise and nothing inside the outer
  \<open>try\<close> block throws past the four inner guards; the outer handler is
  \<open>fetchInitialData_catch\<close> below, and \<open>finally\<close> clears \<open>loading\<close>.
\<close>

definition fetchInitialData ::
  "store \<Rightarrow> obj list outcome \<Rightarrow> obj list outcome \<Rightarrow> obj list outcome \<Rightarrow> obj list outcome
     \<Rightarrow> store" where
  "fetchInitialData r cs rs ms os =
     (let s0 = r\<lparr>loading := True, error := None\<rparr>;
          (candidatesData, s1) = guarded_fetch cs s0;
          (rolesData, s2) = guarded_fetch rs s1;
          (matchesData, s3) = guarded_fetch ms s2;
          (offersData, s4) = guarded_fetch os s3;
          hasData = (length candidatesData > 0 \<or> length rolesData > 0 \<or>
                     length matchesData > 0 \<or> length offersData > 0);
          s5 = (if \<not> hasData
                then (let s = s4\<lparr>useFallbackData := True,
                                  candidates := mockData_candidates,
                                  roles := mockData_roles,
                                  matches := mockData_matches,
                                  offers := mockData_offers\<rparr>
                      in if \<not> truthy_str (error r)
                         then s\<lparr>error := Some
                           ''Unable to connect to the backend. Using demo mode with sample data.''\<rparr>
                         else s)
                else s4\<lparr>candidates := candidatesData,
                        roles := rolesData,
                        matches := matchesData,
                        offers := offersData\<rparr>)
      in s5\<lparr>loading := False\<rparr>)"

text \<open>The handler of the outer \<open>try\<close>, followed by \<open>finally\<close>.\<close>

definition fetchInitialData_catch :: "store \<Rightarrow> store" where
  "fetchInitialData_catch s =
     s\<lparr>error := Some ''Failed to load application data. Please refresh the page.'',
       candidates := mockData_candidates,
       roles := mockData_roles,
       matches := mockData_matches,
       offers := mockData_offers,
       useFallbackData := True,
       loading := False\<rparr>"

text \<open>
  Mounting \<open>AppProvider\<close>: the effect runs once, after the first render, whose cells hold
  their initial values.
\<close>

definition bootstrap ::
  "obj list outcome \<Rightarrow> obj list outcome \<Rightarrow> obj list outcome \<Rightarrow> obj list outcome \<Rightarrow> store" where
  "bootstrap cs rs ms os = fetchInitialData initial_store cs rs ms os"

text \<open>A fetch that failed or returned an empty collection, and one that returned data.\<close>

definition no_data :: "obj list outcome \<Rightarrow> bool" where
  "no_data reply = (case reply of Rejected _ \<Rightarrow> True | Resolved d \<Rightarrow> d = [])"

definition fetched :: "obj list outcome \<Rightarrow> obj list" where
  "fetched reply = (case reply of Rejected _ \<Rightarrow> [] | Resolved d \<Rightarrow> d)"

subsection \<open>AppContent\<close>

text \<open>
  What \<open>AppContent\<close> renders from the \<open>loading\<close> and \<open>error\<close> cells of the store: the
  loading screen, the error screen (a full-page "Something went wrong" with a refresh
  button and the message), or the router with the pages of the application.
\<close>

datatype screen = LoadingScreen | ErrorScreen string | Router

definition AppContent :: "store \<Rightarrow> screen" where
  "AppContent s =
     (if loading s then LoadingScreen
      else if truthy_str (error s)
      then ErrorScreen (or_else (error s)
             ''Failed to load application data. Please refresh the page.'')
      else Router)"

section \<open>Strings and numbers of the runtime\<close>

text \<open>Decimal numerals, as \<open>String(n)\<close> writes a safe integer.\<close>

definition digit_char :: "nat \<Rightarrow> char" where
  "digit_char d = char_of (48 + d)"

fun str_of_nat :: "nat \<Rightarrow> string" where
  "str_of_nat n = (if n < 10 then [digit_char n] else str_of_nat (n div 10) @ [digit_char (n mod 10)])"

declare str_of_nat.simps [simp del]

definition str_of_int :: "int \<Rightarrow> string" where
  "str_of_int i = (if i < 0 then CHR ''-'' # str_of_nat (nat (- i)) else str_of_nat (nat i))"

text \<open>\<open>xs.join(sep)\<close>\<close>

fun join :: "string \<Rightarrow> string list \<Rightarrow> string" where
  "join sep [] = []"
| "join sep [x] = x"
| "join sep (x # y # ys) = x @ sep @ join sep (y # ys)"

text \<open>
  \<open>String(v)\<close>, the conversion a template literal applies. An array joins its elements
  with commas, writing \<open>null\<close> and \<open>undefined\<close> elements as the empty string.
\<close>

fun to_string :: "json \<Rightarrow> string" where
  "to_string JUndefined = ''undefined''"
| "to_string JNull = ''null''"
| "to_string (JBool b) = (if b then ''true'' else ''false'')"
| "to_string (JNum n) = str_of_int (Rep_safe_int n)"
| "to_string JNaN = ''NaN''"
| "to_string (JStr t) = t"
| "to_string (JArr xs) =
     join '','' (map (\<lambda>x. if x = JUndefined \<or> x = JNull then [] else to_string x) xs)"
| "to_string (JObj _) = ''[object Object]''"

text \<open>
  White space of the ASCII range (tab, line feed, vertical tab, form feed, carriage
  return, space), which \<open>trim\<close> and \<open>parseInt\<close> skip.
\<close>

definition is_space :: "char \<Rightarrow> bool" where
  "is_space c = ((of_char c :: nat) \<in> {9, 10, 11, 12, 13, 32})"

definition trim :: "string \<Rightarrow> string" where
  "trim t = rev (dropWhile is_space (rev (dropWhile is_space t)))"

text \<open>\<open>t.split(sep)\<close> with a one-character separator: the empty string gives \<open>['']\<close>.\<close>

fun split :: "char \<Rightarrow> string \<Rightarrow> string list" where
  "split sep [] = [[]]"
| "split sep (c # cs) =
     (if c = sep then [] # split sep cs
      else (case split sep cs of [] \<Rightarrow> [[c]] | p # ps \<Rightarrow> (c # p) # ps))"

text \<open>The value of a digit in radix 10 and in radix 16.\<close>

definition dec_digit :: "char \<Rightarrow> nat option" where
  "dec_digit c =
     (let n = (of_char c :: nat) in if 48 \<le> n \<and> n \<le> 57 then Some (n - 48) else None)"

definition hex_digit :: "char \<Rightarrow> nat option" where
  "hex_digit c =
     (let n = (of_char c :: nat) in
      if 48 \<le> n \<and> n \<le> 57 then Some (n - 48)
      else if 97 \<le> n \<and> n \<le> 102 then Some (n - 87)
      else if 65 \<le> n \<and> n \<le> 70 then Some (n - 55)
      else None)"

definition digits_value :: "(char \<Rightarrow> nat option) \<Rightarrow> nat \<Rightarrow> string \<Rightarrow> nat" where
  "digits_value dv R z =
     foldl (\<lambda>a c. case dv c of None \<Rightarrow> a | Some d \<Rightarrow> a * R + d) 0 z"

text \<open>
  What \<open>parseInt\<close> and an addition give: \<open>NaN\<close>, a safe integer, or \<open>Beyond\<close>. The
  runtime computes in doubles; where the mathematical result is a safe integer, that
  integer is the result. Where it is not, the runtime rounds, and the model does not
  follow the value: it is \<open>Beyond\<close>, and so is what is computed from it.
\<close>

datatype number = NotANumber | Exact safe_int | Beyond

definition exact :: "int \<Rightarrow> number" where
  "exact n = (if safe n then Exact (Abs_safe_int n) else Beyond)"

text \<open>
  \<open>parseInt(t)\<close> without a radix: leading white space is skipped, a sign is read, the
  prefix \<open>0x\<close> or \<open>0X\<close> selects radix 16, the longest run of digits is read, and the
  result is \<open>NaN\<close> when that run is empty.
\<close>

definition parseInt_string :: "string \<Rightarrow> number" where
  "parseInt_string t =
     (let S = dropWhile is_space t;
          (sign, S1) = (case S of
                          [] \<Rightarrow> (1, S)
                        | c # cs \<Rightarrow> if c = CHR ''-'' then (- 1, cs)
                                    else if c = CHR ''+'' then (1, cs) else (1, S));
          (R, dv, S2) = (if take 2 S1 = ''0x'' \<or> take 2 S1 = ''0X''
                         then (16, hex_digit, drop 2 S1) else (10, dec_digit, S1));
          Z = takeWhile (\<lambda>c. dv c \<noteq> None) S2
      in if Z = [] then NotANumber else exact (sign * int (digits_value dv R Z)))"

text \<open>\<open>parseInt(v)\<close> converts its argument to a string first.\<close>

definition parseInt :: "json \<Rightarrow> number" where
  "parseInt v = parseInt_string (to_string v)"

text \<open>Addition of two numbers: \<open>NaN\<close> is absorbing.\<close>

fun num_add :: "number \<Rightarrow> number \<Rightarrow> number" where
  "num_add NotANumber _ = NotANumber"
| "num_add _ NotANumber = NotANumber"
| "num_add (Exact a) (Exact b) = exact (Rep_safe_int a + Rep_safe_int b)"
| "num_add _ _ = Beyond"

text \<open>
  What the model says of a computation that takes in a number: its result, or that it
  is not followed because a number was \<open>Beyond\<close>.
\<close>

datatype 'a followed = Not_followed | Followed 'a

definition number_value :: "number \<Rightarrow> json followed" where
  "number_value x =
     (case x of NotANumber \<Rightarrow> Followed JNaN | Exact n \<Rightarrow> Followed (JNum n) | Beyond \<Rightarrow> Not_followed)"

section \<open>The response interceptor of the gateway (services/api.js)\<close>

text \<open>
  The part of an axios error the interceptor reads: \<open>error.response\<close> (status and body)
  when the server answered, whether \<open>error.request\<close> is set, and \<open>error.code\<close>. The
  status is a number of the model, a safe integer.
\<close>

record axios_error =
  error_response :: "(safe_int \<times> json) option"
  error_request :: bool
  error_code :: "string option"

definition errorMessage :: "axios_error \<Rightarrow> string" where
  "errorMessage e =
     (case error_response e of
        Some (status, data) \<Rightarrow>
          (let detail = js_or (opt_get ''detail'' data) (JStr []) in
           if Rep_safe_int status = 400 then ''Bad Request: '' @ to_string detail
           else if Rep_safe_int status = 401 then ''Unauthorized: Please log in again''
           else if Rep_safe_int status = 403 then ''Forbidden: You do not have permission''
           else if Rep_safe_int status = 404 then
             ''Not Found: '' @ to_string (js_or detail (JStr ''The requested resource was not found''))
           else if Rep_safe_int status = 500 then
             ''Server Error: '' @ to_string (js_or detail (JStr ''Internal server error''))
           else ''Error '' @ to_string (JNum status) @ '': '' @
                  to_string (js_or detail (JStr ''Something went wrong'')))
      | None \<Rightarrow>
          (if error_request e then
             (if error_code e = Some ''ECONNABORTED'' then ''Request timed out. Please try again.''
              else if error_code e = Some ''ERR_NETWORK'' then
                ''Network error. Please check if the backend server is running on http://localhost:8000''
              else ''Network error. Please check your connection.'')
           else ''An unexpected error occurred''))"

text \<open>The rejection handler: \<open>error.userMessage = errorMessage; return Promise.reject(error)\<close>.\<close>

definition interceptor :: "axios_error \<Rightarrow> api_error" where
  "interceptor e = ApiError (Some (errorMessage e))"

section \<open>Operations of the store on offers\<close>

text \<open>
  The calls of the gateway an operation issues, recorded in the order they are made. The
  reply of each call is an argument of the operation that makes it.
\<close>

datatype call =
    roleService_getRoles bool
  | roleService_createRole obj
  | roleService_updateRole json obj
  | roleService_deleteRole json
  | offerService_approveOffer json
  | offerService_updateOffer json obj

text \<open>
  The element function of \<open>offers.map(...)\<close> in \<open>approveOffer\<close>:
  \<open>offer._id === offerId ? { ...offer, status: 'Approved' } : offer\<close>.
  Identifiers are strings.
\<close>

definition approve_entry :: "string \<Rightarrow> obj \<Rightarrow> obj" where
  "approve_entry offerId offer =
     (if strict_eq (get ''_id'' offer) (JStr offerId)
      then AList.update ''status'' (JStr ''Approved'') offer
      else offer)"

text \<open>
  \<open>approveOffer(offerId)\<close> of the context. The result is \<open>Inl err\<close> when the promise
  rejects (the error is thrown again after \<open>setError\<close>) and \<open>Inr v\<close> when it resolves with
  \<open>v\<close>. The reply is the one of \<open>offerService.approveOffer(offerId)\<close>; the fallback branch
  does not ask for it.
\<close>

definition approveOffer ::
  "store \<Rightarrow> string \<Rightarrow> json outcome \<Rightarrow> (api_error + json) \<times> store \<times> call list" where
  "approveOffer s offerId reply =
     (if useFallbackData s
      then (Inr (JObj [(''message'', JStr ''Simulated offer approval in demo mode'')]),
            s\<lparr>offers := map (approve_entry offerId) (offers s)\<rparr>,
            [])
      else (case reply of
              Resolved response \<Rightarrow>
                (Inr response,
                 s\<lparr>offers := map (approve_entry offerId) (offers s)\<rparr>,
                 [offerService_approveOffer (JStr offerId)])
            | Rejected err \<Rightarrow>
                (Inl err,
                 s\<lparr>error := Some (or_else (userMessage err) ''Error approving offer'')\<rparr>,
                 [offerService_approveOffer (JStr offerId)])))"

text \<open>
  The element functions of \<open>updateOffer\<close>: the fallback branch builds
  \<open>{ ...offer, ...offerData, status: 'Modified' }\<close>, the live branch puts the reply of the
  server in the place of the offer.
\<close>

definition modify_entry :: "string \<Rightarrow> obj \<Rightarrow> obj \<Rightarrow> obj" where
  "modify_entry offerId offerData offer =
     (if strict_eq (get ''_id'' offer) (JStr offerId)
      then AList.update ''status'' (JStr ''Modified'') (spread offer offerData)
      else offer)"

definition replace_entry :: "string \<Rightarrow> obj \<Rightarrow> obj \<Rightarrow> obj" where
  "replace_entry offerId response offer =
     (if strict_eq (get ''_id'' offer) (JStr offerId) then response else offer)"

definition updateOffer ::
  "store \<Rightarrow> string \<Rightarrow> obj \<Rightarrow> obj outcome \<Rightarrow> (api_error + json) \<times> store \<times> call list" where
  "updateOffer s offerId offerData reply =
     (if useFallbackData s
      then (Inr (JObj [(''message'', JStr ''Simulated offer update in demo mode'')]),
            s\<lparr>offers := map (modify_entry offerId offerData) (offers s)\<rparr>,
            [])
      else (case reply of
              Resolved response \<Rightarrow>
                (Inr (JObj response),
                 s\<lparr>offers := map (replace_entry offerId response) (offers s)\<rparr>,
                 [offerService_updateOffer (JStr offerId) offerData])
            | Rejected err \<Rightarrow>
                (Inl err,
                 s\<lparr>error := Some (or_else (userMessage err) ''Error updating offer'')\<rparr>,
                 [offerService_updateOffer (JStr offerId) offerData])))"

text \<open>
  The three components of what an operation gives back: its result (or, for a handler of
  a page, the page), the store, and the calls it made.
\<close>

definition result_of :: "'r \<times> store \<times> call list \<Rightarrow> 'r" where
  "result_of x = fst x"

definition store_of :: "'r \<times> store \<times> call list \<Rightarrow> store" where
  "store_of x = fst (snd x)"

definition calls_of :: "'r \<times> store \<times> call list \<Rightarrow> call list" where
  "calls_of x = snd (snd x)"

text \<open>\<open>offer.offer?.k\<close>: a component of the package nested in an offer.\<close>

definition package :: "string \<Rightarrow> obj \<Rightarrow> json" where
  "package k offer = opt_get k (get ''offer'' offer)"

section \<open>The offer page (OfferRecommendation)\<close>

record notification =
  n_open :: bool
  message :: string
  severity :: string

text \<open>The cells of the page that its handlers for editing and approving use.\<close>

record offer_page =
  page_offers :: "obj list"
  selectedOffer :: "obj option"
  editedOffer :: "obj option"
  detailDialogOpen :: bool
  editDialogOpen :: bool
  offer_notification :: notification

text \<open>
  The patch \<open>handleSaveEdit\<close> sends:
  \<open>newTotalCTC = parseInt(editedOffer.base_salary) + parseInt(editedOffer.bonus || 0)\<close> and
  \<open>{ offer: { ...editedOffer, total_ctc: newTotalCTC }, status: 'Modified' }\<close>. The patch
  is not followed when the total is \<open>Beyond\<close>.
\<close>

definition newTotalCTC :: "obj \<Rightarrow> number" where
  "newTotalCTC edited =
     num_add (parseInt (get ''base_salary'' edited))
             (parseInt (js_or (get ''bonus'' edited) (num 0)))"

definition updatedOfferData :: "obj \<Rightarrow> obj followed" where
  "updatedOfferData edited =
     (case number_value (newTotalCTC edited) of
        Not_followed \<Rightarrow> Not_followed
      | Followed ctc \<Rightarrow>
          Followed [(''offer'', JObj (AList.update ''total_ctc'' ctc edited)),
                    (''status'', JStr ''Modified'')])"

text \<open>
  A field of the edit dialog holds the integer \<open>n\<close> either as a number (untouched, as it
  came from the offer) or as the decimal numeral typed into the text field.
\<close>

definition holds_int :: "json \<Rightarrow> int \<Rightarrow> bool" where
  "holds_int v n = (v = num n \<or> v = JStr (str_of_int n))"

text \<open>
  \<open>handleSaveEdit\<close>. Reading a property of \<open>editedOffer\<close> or \<open>selectedOffer\<close> while it is
  \<open>null\<close> raises inside the \<open>try\<close> block, before any call is made, and ends in the
  handler like a rejected call, whatever the total would be. The patch goes to the
  gateway, \<open>offerService.updateOffer\<close>, not to the \<open>updateOffer\<close> of the context. The page
  keeps its own copy of the offers and replaces the offer that has the identifier of the
  reply.
\<close>

definition handleSaveEdit ::
  "offer_page \<Rightarrow> obj outcome \<Rightarrow> (offer_page \<times> call list) followed" where
  "handleSaveEdit p reply =
     (let failed = p\<lparr>offer_notification :=
                      \<lparr>n_open = True, message = ''Error updating offer. Please try again.'',
                       severity = ''error''\<rparr>\<rparr>
      in case editedOffer p of
           None \<Rightarrow> Followed (failed, [])
         | Some edited \<Rightarrow>
            (case selectedOffer p of
               None \<Rightarrow> Followed (failed, [])
             | Some selected \<Rightarrow>
                (case updatedOfferData edited of
                   Not_followed \<Rightarrow> Not_followed
                 | Followed patch \<Rightarrow>
                    (let c = offerService_updateOffer (get ''_id'' selected) patch
                     in case reply of
                          Rejected err \<Rightarrow> Followed (failed, [c])
                        | Resolved response \<Rightarrow>
                            Followed
                              (p\<lparr>page_offers :=
                                   map (\<lambda>offer. if strict_eq (get ''_id'' offer) (get ''_id'' response)
                                                 then response else offer) (page_offers p),
                                 offer_notification :=
                                   \<lparr>n_open = True, message = ''Offer updated successfully!'',
                                    severity = ''success''\<rparr>,
                                 editDialogOpen := False\<rparr>,
                               [c])))))"

text \<open>The calls of a handler that is followed.\<close>

definition calls_made :: "('p \<times> call list) followed \<Rightarrow> call list followed" where
  "calls_made x = (case x of Not_followed \<Rightarrow> Not_followed | Followed (p, cs) \<Rightarrow> Followed cs)"


section \<open>Roles: the store's refresh and the role page (RoleManagement)\<close>

text \<open>
  \<open>refreshRoles\<close> of the context. The live branch calls \<open>roleService.getRoles()\<close>, whose
  parameter \<open>activeOnly\<close> defaults to \<open>true\<close> and is sent as \<open>active_only\<close>.
\<close>

definition refreshRoles ::
  "store \<Rightarrow> obj list outcome \<Rightarrow> (api_error + obj list) \<times> store \<times> call list" where
  "refreshRoles s reply =
     (if useFallbackData s then (Inr mockData_roles, s, [])
      else (case reply of
              Resolved data \<Rightarrow> (Inr data, s\<lparr>roles := data\<rparr>, [roleService_getRoles True])
            | Rejected err \<Rightarrow>
                (Inl err,
                 s\<lparr>error := Some (or_else (userMessage err) ''Error refreshing roles'')\<rparr>,
                 [roleService_getRoles True])))"

datatype dialog_mode = Add | Edit

record formData =
  title :: string
  department :: string
  description :: string
  required_skills :: string
  preferred_skills :: string
  experience_required :: string
  education_required :: string
  location :: string
  remote_option :: string
  salary_range :: json

record role_page =
  page_loading :: bool
  dialogOpen :: bool
  dialogMode :: dialog_mode
  selectedRole :: "obj option"
  form :: formData
  role_notification :: notification

text \<open>\<open>t.split(',').map(skill => skill.trim()).filter(Boolean)\<close>\<close>

definition skill_list :: "string \<Rightarrow> json" where
  "skill_list t = JArr (map JStr (filter (\<lambda>skill. skill \<noteq> []) (map trim (split CHR '','' t))))"

definition roleData :: "formData \<Rightarrow> obj" where
  "roleData f =
     [(''title'', JStr (title f)),
      (''department'', JStr (department f)),
      (''description'', JStr (description f)),
      (''required_skills'', skill_list (required_skills f)),
      (''preferred_skills'', skill_list (preferred_skills f)),
      (''experience_required'', JStr (experience_required f)),
      (''education_required'', JStr (education_required f)),
      (''location'', JStr (location f)),
      (''remote_option'', JStr (remote_option f)),
      (''salary_range'', salary_range f)]"

text \<open>
  \<open>handleSubmit\<close>. The first reply is the one of \<open>roleService.createRole\<close> or
  \<open>roleService.updateRole\<close>, the second the one of the \<open>getRoles\<close> call inside
  \<open>refreshRoles\<close>. Both branches go to the gateway whatever the mode of the store is. A
  rejection of either call, and reading \<open>selectedRole._id\<close> while \<open>selectedRole\<close> is
  \<open>null\<close>, end in the handler; \<open>finally\<close> clears the busy flag.
\<close>

definition handleSubmit ::
  "store \<Rightarrow> role_page \<Rightarrow> json outcome \<Rightarrow> obj list outcome \<Rightarrow> role_page \<times> store \<times> call list" where
  "handleSubmit s p reply refreshed =
     (let failed = p\<lparr>role_notification :=
                      \<lparr>n_open = True,
                       message = ''Error '' @ (if dialogMode p = Add then ''creating'' else ''updating'')
                                   @ '' role. Please try again.'',
                       severity = ''error''\<rparr>,
                     page_loading := False\<rparr>;
          saved = (\<lambda>c msg.
                     case reply of
                       Rejected err \<Rightarrow> (failed, s, [c])
                     | Resolved response \<Rightarrow>
                         (let (r, s1, cs) = refreshRoles s refreshed
                          in case r of
                               Inl err \<Rightarrow> (failed, s1, c # cs)
                             | Inr data \<Rightarrow>
                                 (p\<lparr>role_notification :=
                                      \<lparr>n_open = True, message = msg, severity = ''success''\<rparr>,
                                    dialogOpen := False,
                                    page_loading := False\<rparr>,
                                  s1,
                                  c # cs)))
      in if dialogMode p = Add
         then saved (roleService_createRole (roleData (form p))) ''Role created successfully!''
         else (case selectedRole p of
                 None \<Rightarrow> (failed, s, [])
               | Some selected \<Rightarrow>
                   saved (roleService_updateRole (get ''_id'' selected) (roleData (form p)))
                         ''Role updated successfully!''))"

text \<open>
  \<open>handleDeleteRole(roleId)\<close>: \<open>roleService.deleteRole(roleId)\<close>, then \<open>refreshRoles()\<close>.
  The page changes no role itself; what the store holds afterwards is what \<open>refreshRoles\<close>
  puts there.
\<close>

definition handleDeleteRole ::
  "store \<Rightarrow> role_page \<Rightarrow> string \<Rightarrow> json outcome \<Rightarrow> obj list outcome
     \<Rightarrow> role_page \<times> store \<times> call list" where
  "handleDeleteRole s p roleId reply refreshed =
     (let failed = p\<lparr>role_notification :=
                      \<lparr>n_open = True, message = ''Error deactivating role. Please try again.'',
                       severity = ''error''\<rparr>,
                     page_loading := False\<rparr>;
          c = roleService_deleteRole (JStr roleId)
      in case reply of
           Rejected err \<Rightarrow> (failed, s, [c])
         | Resolved response \<Rightarrow>
             (let (r, s1, cs) = refreshRoles s refreshed
              in case r of
                   Inl err \<Rightarrow> (failed, s1, c # cs)
                 | Inr data \<Rightarrow>
                     (p\<lparr>role_notification :=
                          \<lparr>n_open = True, message = ''Role deactivated successfully!'',
                           severity = ''success''\<rparr>,
                        page_loading := False\<rparr>,
                      s1,
                      c # cs)))"

text \<open>
  A reference to a role is resolved by looking the identifier up in a collection of roles,
  \<open>roles.find(r => r._id === match.role_id)\<close>; the result is \<open>undefined\<close> (\<open>None\<close>) when no
  role has it, and the views then show a placeholder.
\<close>

definition find_role :: "json \<Rightarrow> obj list \<Rightarrow> obj option" where
  "find_role role_id rs = List.find (\<lambda>r. strict_eq (get ''_id'' r) role_id) rs"

section \<open>The role endpoints of the backend\<close>

text \<open>
  Modelled from the spec: the backend that serves \<open>DELETE /roles/{id}\<close> and
  \<open>GET /roles/?active_only=bool\<close> is not among the sources. The specification says that
  deleting a role is logical, a flip of its active flag and never a removal from the
  collection, and that a role whose flag is false does not appear among the active roles
  but stays addressable by its identifier. \<open>db\<close> is the collection of roles the backend
  holds.
\<close>

definition backend_deleteRole :: "string \<Rightarrow> obj list \<Rightarrow> obj list" where
  "backend_deleteRole roleId db =
     map (\<lambda>r. if strict_eq (get ''_id'' r) (JStr roleId)
               then AList.update ''is_active'' (JBool False) r else r) db"

text \<open>
  Modelled from the spec: the list endpoint, \<open>GET /roles/?active_only=bool\<close>, gives the
  roles whose flag is true when \<open>active_only\<close> is set and every role otherwise.
\<close>

definition backend_getRoles :: "bool \<Rightarrow> obj list \<Rightarrow> obj list" where
  "backend_getRoles activeOnly db =
     (if activeOnly then filter (\<lambda>r. truthy (get ''is_active'' r)) db else db)"

section \<open>Inputs of the scenarios\<close>

text \<open>The axios error of a request that got no answer because the backend is down.\<close>

definition network_down :: axios_error where
  "network_down = \<lparr>error_response = None, error_request = True, error_code = Some ''ERR_NETWORK''\<rparr>"

text \<open>The axios error of a request the server answered with status 500 and no body.\<close>

definition server_error :: axios_error where
  "server_error = \<lparr>error_response = Some (Abs_safe_int 500, JNull), error_request = True, error_code = None\<rparr>"

text \<open>The store after a bootstrap against that backend, and after one against a backend
  that serves the sample collections.\<close>

definition demo_store :: store where
  "demo_store =
     bootstrap (Rejected (interceptor network_down)) (Rejected (interceptor network_down))
               (Rejected (interceptor network_down)) (Rejected (interceptor network_down))"

definition live_store :: store where
  "live_store =
     bootstrap (Resolved mockData_candidates) (Resolved mockData_roles)
               (Resolved mockData_matches) (Resolved mockData_offers)"

text \<open>
  A patch for the offer \<open>mock1\<close> that raises the base salary to 120000 and carries the
  package's old total.
\<close>

definition raised_base_patch :: obj where
  "raised_base_patch =
     [(''offer'', JObj [(''base_salary'', num 120000), (''bonus'', num 10000),
                       (''equity'', JStr ''1%''), (''total_ctc'', num 110000)])]"

text \<open>
  The edit dialog of that offer after the user typed 120000 into the base salary, and the
  page with that dialog open.
\<close>

definition edited_mock1 :: obj where
  "edited_mock1 =
     [(''base_salary'', JStr ''120000''), (''bonus'', num 10000),
      (''equity'', JStr ''1%''), (''total_ctc'', num 110000)]"

text \<open>The patch the page builds from that dialog: the edited package with the total 130000.\<close>

definition saved_patch :: obj where
  "saved_patch =
     [(''offer'', JObj [(''base_salary'', JStr ''120000''), (''bonus'', num 10000),
                       (''equity'', JStr ''1%''), (''total_ctc'', num 130000)]),
      (''status'', JStr ''Modified'')]"

definition editing_page :: offer_page where
  "editing_page =
     \<lparr>page_offers = mockData_offers, selectedOffer = Some (hd mockData_offers),
      editedOffer = Some edited_mock1, detailDialogOpen = False, editDialogOpen = True,
      offer_notification = \<lparr>n_open = False, message = [], severity = ''info''\<rparr>\<rparr>"

text \<open>
  The store in fallback mode holding the single role
  \<open>{_id: 'mock1', required_skills: ['React']}\<close>, and the role page with the dialog for a
  new role filled in with title \<open>X\<close> and required skills \<open>X\<close>.
\<close>

definition single_role_store :: store where
  "single_role_store =
     demo_store\<lparr>roles := [[(''_id'', JStr ''mock1''), (''required_skills'', JArr [JStr ''React''])]]\<rparr>"

definition idle_page :: role_page where
  "idle_page =
     \<lparr>page_loading = False, dialogOpen = False, dialogMode = Add, selectedRole = None,
      form = \<lparr>title = [], department = [], description = [], required_skills = [],
               preferred_skills = [], experience_required = [], education_required = [],
               location = [], remote_option = [],
               salary_range = JObj [(''min'', num 0), (''max'', num 0)]\<rparr>,
      role_notification = \<lparr>n_open = False, message = [], severity = ''info''\<rparr>\<rparr>"

definition add_X_page :: role_page where
  "add_X_page =
     idle_page\<lparr>dialogOpen := True,
               form := (form idle_page)\<lparr>title := ''X'', required_skills := ''X''\<rparr>\<rparr>"

text \<open>The role the backend would answer a successful creation with.\<close>

definition created_X :: json where
  "created_X =
     JObj [(''_id'', JStr ''65f0c0ffee''), (''title'', JStr ''X''),
           (''required_skills'', JArr [JStr ''X'']), (''is_active'', JBool True)]"

section \<open>Safe integers\<close>

lemma Rep_Abs_safe: "safe n \<Longrightarrow> Rep_safe_int (Abs_safe_int n) = n"
  by (simp add: Abs_safe_int_inverse)

lemma Abs_safe_eq: "safe a \<Longrightarrow> safe b \<Longrightarrow> (Abs_safe_int a = Abs_safe_int b) = (a = b)"
  by (simp add: Abs_safe_int_inject)

lemma safe_Rep: "safe (Rep_safe_int n)"
  using Rep_safe_int [of n] by simp

section \<open>Bootstrap properties\<close>

lemma guarded_fetch_fst: "fst (guarded_fetch reply s) = fetched reply"
  by (cases reply) (simp_all add: guarded_fetch_def fetched_def)

lemma catch_fetch_frame:
  "candidates (catch_fetch err s) = candidates s"
  "roles (catch_fetch err s) = roles s"
  "matches (catch_fetch err s) = matches s"
  "offers (catch_fetch err s) = offers s"
  "loading (catch_fetch err s) = loading s"
  "useFallbackData (catch_fetch err s) = useFallbackData s"
  by (simp_all add: catch_fetch_def)

lemma guarded_fetch_frame:
  "candidates (snd (guarded_fetch reply s)) = candidates s"
  "roles (snd (guarded_fetch reply s)) = roles s"
  "matches (snd (guarded_fetch reply s)) = matches s"
  "offers (snd (guarded_fetch reply s)) = offers s"
  "loading (snd (guarded_fetch reply s)) = loading s"
  "useFallbackData (snd (guarded_fetch reply s)) = useFallbackData s"
  by (cases reply; simp add: guarded_fetch_def catch_fetch_frame)+

lemma no_data_fetched: "no_data reply \<longleftrightarrow> fetched reply = []"
  by (cases reply) (simp_all add: no_data_def fetched_def)

text \<open>
  C1. If each of the four bootstrap fetches fails or returns an empty collection, then
  after bootstrap the fallback flag is set and each of the four collections of the store
  is the corresponding collection of \<open>mockData\<close>.
\<close>

theorem bootstrap_total_failure:
  assumes "no_data cs" and "no_data rs" and "no_data ms" and "no_data os"
  shows "useFallbackData (bootstrap cs rs ms os) \<and>
         candidates (bootstrap cs rs ms os) = mockData_candidates \<and>
         roles (bootstrap cs rs ms os) = mockData_roles \<and>
         matches (bootstrap cs rs ms os) = mockData_matches \<and>
         offers (bootstrap cs rs ms os) = mockData_offers"
proof -
  have e: "fetched cs = []" "fetched rs = []" "fetched ms = []" "fetched os = []"
    using assms by (simp_all add: no_data_fetched)
  show ?thesis
    using e guarded_fetch_fst
    by (simp add: bootstrap_def fetchInitialData_def Let_def split_beta)
qed

theorem bootstrap_total_failure_witness:
  "no_data (Rejected (ApiError (Some ''Request timed out. Please try again.''))) \<and>
   no_data (Resolved []) \<and>
   useFallbackData (bootstrap (Rejected (ApiError (Some ''Request timed out. Please try again.'')))
      (Resolved []) (Rejected (ApiError None)) (Resolved [])) \<and>
   offers (bootstrap (Rejected (ApiError (Some ''Request timed out. Please try again.'')))
      (Resolved []) (Rejected (ApiError None)) (Resolved [])) = mockData_offers"
  using bootstrap_total_failure
    [of "Rejected (ApiError (Some ''Request timed out. Please try again.''))"
        "Resolved []" "Rejected (ApiError None)" "Resolved []"]
  by (simp add: no_data_def)

lemma bootstrap_fallback_flag:
  assumes "no_data cs" and "no_data rs" and "no_data ms" and "no_data os"
  shows "useFallbackData (bootstrap cs rs ms os)"
proof -
  have e: "fetched cs = []" "fetched rs = []" "fetched ms = []" "fetched os = []"
    using assms by (simp_all add: no_data_fetched)
  show ?thesis
    using e guarded_fetch_fst
    by (simp add: bootstrap_def fetchInitialData_def Let_def split_beta)
qed

lemma bootstrap_partial:
  assumes "\<not> (no_data cs \<and> no_data rs \<and> no_data ms \<and> no_data os)"
  shows "\<not> useFallbackData (bootstrap cs rs ms os) \<and>
         candidates (bootstrap cs rs ms os) = fetched cs \<and>
         roles (bootstrap cs rs ms os) = fetched rs \<and>
         matches (bootstrap cs rs ms os) = fetched ms \<and>
         offers (bootstrap cs rs ms os) = fetched os"
proof -
  have h: "fetched cs \<noteq> [] \<or> fetched rs \<noteq> [] \<or> fetched ms \<noteq> [] \<or> fetched os \<noteq> []"
    using assms by (simp add: no_data_fetched)
  show ?thesis
    using h guarded_fetch_fst guarded_fetch_frame
    by (simp add: bootstrap_def fetchInitialData_def Let_def split_beta initial_store_def)
qed

text \<open>
  C2. If exactly one of the four bootstrap fetches returns a non-empty collection and the
  other three fail or return empty collections, then the fallback flag stays false and
  the collections of the other three are empty: each collection holds what its own fetch
  returned and \<open>mockData\<close> is substituted for none of them.
\<close>

theorem bootstrap_single_success:
  assumes "length (filter (\<lambda>reply. \<not> no_data reply) [cs, rs, ms, os]) = 1"
  shows "\<not> useFallbackData (bootstrap cs rs ms os) \<and>
         (no_data cs \<longrightarrow> candidates (bootstrap cs rs ms os) = []) \<and>
         (no_data rs \<longrightarrow> roles (bootstrap cs rs ms os) = []) \<and>
         (no_data ms \<longrightarrow> matches (bootstrap cs rs ms os) = []) \<and>
         (no_data os \<longrightarrow> offers (bootstrap cs rs ms os) = []) \<and>
         candidates (bootstrap cs rs ms os) = fetched cs \<and>
         roles (bootstrap cs rs ms os) = fetched rs \<and>
         matches (bootstrap cs rs ms os) = fetched ms \<and>
         offers (bootstrap cs rs ms os) = fetched os"
proof -
  have "\<not> (no_data cs \<and> no_data rs \<and> no_data ms \<and> no_data os)"
    using assms by auto
  from bootstrap_partial [OF this] show ?thesis
    by (simp add: no_data_fetched)
qed

theorem bootstrap_single_success_witness:
  "length (filter (\<lambda>reply. \<not> no_data reply)
      [Resolved [], Resolved mockData_roles, Rejected (ApiError None), Resolved []]) = 1 \<and>
   \<not> useFallbackData (bootstrap (Resolved []) (Resolved mockData_roles) (Rejected (ApiError None)) (Resolved [])) \<and>
   candidates (bootstrap (Resolved []) (Resolved mockData_roles) (Rejected (ApiError None)) (Resolved [])) = [] \<and>
   roles (bootstrap (Resolved []) (Resolved mockData_roles) (Rejected (ApiError None)) (Resolved [])) = mockData_roles \<and>
   matches (bootstrap (Resolved []) (Resolved mockData_roles) (Rejected (ApiError None)) (Resolved [])) = [] \<and>
   offers (bootstrap (Resolved []) (Resolved mockData_roles) (Rejected (ApiError None)) (Resolved [])) = []"
  using bootstrap_single_success
    [of "Resolved []" "Resolved mockData_roles" "Rejected (ApiError None)" "Resolved []"]
  by (simp add: no_data_def fetched_def mockData_roles_def)

lemma bootstrap_loading: "\<not> loading (bootstrap cs rs ms os)"
  by (simp add: bootstrap_def fetchInitialData_def Let_def split_beta)

lemma bootstrap_fallback_error:
  assumes "no_data cs" and "no_data rs" and "no_data ms" and "no_data os"
  shows "error (bootstrap cs rs ms os) =
           Some ''Unable to connect to the backend. Using demo mode with sample data.''"
proof -
  have e: "fetched cs = []" "fetched rs = []" "fetched ms = []" "fetched os = []"
    using assms by (simp_all add: no_data_fetched)
  show ?thesis
    using e guarded_fetch_fst
    by (simp add: bootstrap_def fetchInitialData_def Let_def split_beta initial_store_def
        truthy_str_def)
qed

lemma bootstrap_fallback_screen:
  assumes "no_data cs" and "no_data rs" and "no_data ms" and "no_data os"
  shows "AppContent (bootstrap cs rs ms os) =
           ErrorScreen ''Unable to connect to the backend. Using demo mode with sample data.''"
  using bootstrap_fallback_error [OF assms] bootstrap_loading [of cs rs ms os]
  by (simp add: AppContent_def truthy_str_def or_else_def)

text \<open>
  C4. Claimed: after a total failure of bootstrap the user sees the running application
  with a notice of the demo mode, not a failure screen. Evaluated with the backend
  unreachable for all four fetches: the store is in fallback mode, the notice sits in the
  \<open>error\<close> cell, and \<open>AppContent\<close> renders the error screen with that notice in the place
  of the router.
\<close>

theorem total_failure_shows_error_screen:
  "useFallbackData (bootstrap (Rejected (interceptor network_down)) (Rejected (interceptor network_down))
                 (Rejected (interceptor network_down)) (Rejected (interceptor network_down))) \<and>
   AppContent (bootstrap (Rejected (interceptor network_down)) (Rejected (interceptor network_down))
                 (Rejected (interceptor network_down)) (Rejected (interceptor network_down)))
   = ErrorScreen ''Unable to connect to the backend. Using demo mode with sample data.''"
  using bootstrap_fallback_screen [of "Rejected (interceptor network_down)"
      "Rejected (interceptor network_down)" "Rejected (interceptor network_down)"
      "Rejected (interceptor network_down)"]
    bootstrap_fallback_flag [of "Rejected (interceptor network_down)"
      "Rejected (interceptor network_down)" "Rejected (interceptor network_down)"
      "Rejected (interceptor network_down)"]
  by (simp add: no_data_def)

text \<open>
  C5. Claimed: on entering fallback mode the notice of the demo mode is stored only if no
  more specific message was captured. Evaluated with the first fetch answered by status
  500 and the other three empty: the guard of the first fetch stores the message of the
  interceptor, \<open>Server Error: Internal server error\<close>, and the fallback branch then
  replaces it with the notice, because its test \<open>if (!error)\<close> reads the \<open>error\<close> of the
  first render, which is \<open>null\<close>.
\<close>

theorem specific_message_overwritten:
  "error (snd (guarded_fetch (Rejected (interceptor server_error))
                (initial_store\<lparr>loading := True, error := None\<rparr>)))
     = Some ''Server Error: Internal server error'' \<and>
   useFallbackData (bootstrap (Rejected (interceptor server_error))
                      (Resolved []) (Resolved []) (Resolved [])) \<and>
   error (bootstrap (Rejected (interceptor server_error))
            (Resolved []) (Resolved []) (Resolved []))
     = Some ''Unable to connect to the backend. Using demo mode with sample data.''"
  using bootstrap_fallback_error [of "Rejected (interceptor server_error)"
      "Resolved []" "Resolved []" "Resolved []"]
    bootstrap_fallback_flag [of "Rejected (interceptor server_error)"
      "Resolved []" "Resolved []" "Resolved []"]
  by (simp add: guarded_fetch_def catch_fetch_def initial_store_def truthy_str_def no_data_def
      interceptor_def errorMessage_def server_error_def opt_get_def js_or_def
      Rep_Abs_safe safe_def)

text \<open>
  The error screen is also what the handler of the outer \<open>try\<close> leads to, and what one
  rejected fetch among three successful ones leads to.
\<close>

lemma outer_catch_screen:
  "AppContent (fetchInitialData_catch s) =
     ErrorScreen ''Failed to load application data. Please refresh the page.''"
  by (simp add: AppContent_def fetchInitialData_catch_def truthy_str_def or_else_def)

lemma partial_failure_screen:
  "AppContent (bootstrap (Resolved mockData_candidates) (Resolved mockData_roles)
                 (Rejected (interceptor server_error)) (Resolved mockData_offers))
     = ErrorScreen ''Server Error: Internal server error''"
  by (simp add: AppContent_def bootstrap_def fetchInitialData_def guarded_fetch_def
      catch_fetch_def initial_store_def truthy_str_def or_else_def Let_def
      interceptor_def errorMessage_def server_error_def opt_get_def js_or_def
      mockData_candidates_def Rep_Abs_safe safe_def)

section \<open>Objects: property reads, updates and spread\<close>

lemma get_update: "get k (AList.update k' v ob) = (if k = k' then v else get k ob)"
  by (simp add: get_def update_conv')

lemma update_swap_present:
  "k \<noteq> k' \<Longrightarrow> k' \<in> fst ` set al \<Longrightarrow>
   AList.update k v (AList.update k' v' al) = AList.update k' v' (AList.update k v al)"
  by (induction al) auto

lemma spread_Nil: "spread a [] = a"
  by (simp add: spread_def)

lemma spread_Cons: "spread a ((k, v) # b) = spread (AList.update k v a) b"
  by (simp add: spread_def)

lemma spread_append: "spread a (b @ c) = spread (spread a b) c"
  by (simp add: spread_def)

lemma keys_spread: "fst ` set (spread a b) = fst ` set a \<union> fst ` set b"
proof (induction b arbitrary: a)
  case Nil
  show ?case by (simp add: spread_Nil)
next
  case (Cons x b)
  obtain k v where x: "x = (k, v)" by (cases x)
  show ?case
    by (simp add: x spread_Cons Cons.IH dom_update)
qed

lemma map_of_spread: "map_of (spread a b) = map_of a ++ map_of (rev b)"
proof (induction b arbitrary: a)
  case Nil
  show ?case by (simp add: spread_Nil)
next
  case (Cons x b)
  obtain k v where x: "x = (k, v)" by (cases x)
  have "map_of (spread a (x # b)) = map_of (AList.update k v a) ++ map_of (rev b)"
    by (simp only: x spread_Cons Cons.IH)
  also have "\<dots> = (map_of a)(k \<mapsto> v) ++ map_of (rev b)"
    by (simp only: update_conv')
  also have "\<dots> = map_of a ++ map_of (rev (x # b))"
    by (rule ext) (simp add: x map_add_def split: option.splits)
  finally show ?case .
qed

lemma update_spread_absorb:
  "fst ` set w \<subseteq> fst ` set al \<Longrightarrow>
   AList.update k v (spread (AList.update k v' al) w) = AList.update k v (spread al w)"
proof (induction w arbitrary: al)
  case Nil
  show ?case by (simp add: spread_Nil)
next
  case (Cons x w)
  obtain k1 v1 where x: "x = (k1, v1)" by (cases x)
  have k1: "k1 \<in> fst ` set al" and w: "fst ` set w \<subseteq> fst ` set al"
    using Cons.prems by (auto simp: x)
  have w': "fst ` set w \<subseteq> fst ` set (AList.update k1 v1 al)"
    using w by (auto simp: dom_update)
  show ?case
  proof (cases "k1 = k")
    case True
    then show ?thesis by (simp add: x spread_Cons)
  next
    case False
    have "AList.update k1 v1 (AList.update k v' al) = AList.update k v' (AList.update k1 v1 al)"
      using update_swap_present [of k k1 al v' v1] False k1 by simp
    then show ?thesis
      using Cons.IH [OF w'] by (simp add: x spread_Cons)
  qed
qed

lemma spread_idem: "spread (spread a w) w = spread a w"
proof (induction w arbitrary: a rule: rev_induct)
  case Nil
  show ?case by (simp add: spread_Nil)
next
  case (snoc x w)
  obtain k v where x: "x = (k, v)" by (cases x)
  let ?B = "spread a w"
  have sub: "fst ` set w \<subseteq> fst ` set ?B"
    by (simp add: keys_spread)
  have "spread (spread a (w @ [x])) (w @ [x]) = AList.update k v (spread (AList.update k v ?B) w)"
    by (simp add: x spread_append spread_Cons spread_Nil)
  also have "\<dots> = AList.update k v (spread ?B w)"
    using sub by (rule update_spread_absorb)
  also have "\<dots> = AList.update k v ?B"
    by (simp add: snoc.IH)
  also have "\<dots> = spread a (w @ [x])"
    by (simp add: x spread_append spread_Cons spread_Nil)
  finally show ?case .
qed

lemma modify_as_spread:
  "AList.update ''status'' (JStr ''Modified'') (spread offer offerData) =
   spread offer (offerData @ [(''status'', JStr ''Modified'')])"
  by (simp add: spread_append spread_Cons spread_Nil)

lemma modify_entry_idem:
  "modify_entry offerId offerData (modify_entry offerId offerData offer) =
   modify_entry offerId offerData offer"
  by (simp add: modify_entry_def) (simp add: modify_as_spread spread_idem)

lemma get_spread:
  "get k (spread a b) = (if k \<in> fst ` set b then get k (rev b) else get k a)"
proof -
  have "k \<in> fst ` set b \<longleftrightarrow> map_of (rev b) k \<noteq> None"
    by (simp add: map_of_eq_None_iff)
  then show ?thesis
    by (auto simp: get_def map_of_spread map_add_def split: option.splits)
qed

section \<open>Decimal numerals and parseInt\<close>

lemma digit_char_eqI: "(of_char c :: nat) = 48 + d \<Longrightarrow> digit_char d = c"
  by (metis digit_char_def char_of_char)

lemma digit_char_values:
  "digit_char 0 = CHR ''0''" "digit_char (Suc 0) = CHR ''1''" "digit_char 2 = CHR ''2''"
  "digit_char 3 = CHR ''3''" "digit_char 4 = CHR ''4''" "digit_char 5 = CHR ''5''"
  "digit_char 6 = CHR ''6''" "digit_char 7 = CHR ''7''" "digit_char 8 = CHR ''8''"
  "digit_char 9 = CHR ''9''"
  by (rule digit_char_eqI, simp)+

lemma of_char_digit_char: "d < 10 \<Longrightarrow> (of_char (digit_char d) :: nat) = 48 + d"
  by (simp add: digit_char_def)

lemma dec_digit_digit_char: "d < 10 \<Longrightarrow> dec_digit (digit_char d) = Some d"
  by (simp add: dec_digit_def of_char_digit_char)

lemma str_of_nat_digits: "\<forall>c \<in> set (str_of_nat n). \<exists>d < 10. c = digit_char d"
proof (induction n rule: str_of_nat.induct)
  case (1 n)
  show ?case
  proof (cases "n < 10")
    case True
    then show ?thesis by (subst str_of_nat.simps) auto
  next
    case False
    have "\<exists>d < 10. digit_char (n mod 10) = digit_char d"
      by (rule exI [of _ "n mod 10"]) simp
    with 1 False show ?thesis
      by (subst str_of_nat.simps) auto
  qed
qed

lemma str_of_nat_not_Nil: "str_of_nat n \<noteq> []"
  by (subst str_of_nat.simps) simp

lemma digits_value_snoc:
  "digits_value dv R (z @ [c]) =
     (case dv c of None \<Rightarrow> digits_value dv R z | Some d \<Rightarrow> digits_value dv R z * R + d)"
  by (simp add: digits_value_def split: option.splits)

lemma digits_value_str_of_nat: "digits_value dec_digit 10 (str_of_nat n) = n"
proof (induction n rule: str_of_nat.induct)
  case (1 n)
  show ?case
  proof (cases "n < 10")
    case True
    then show ?thesis
      by (subst str_of_nat.simps) (simp add: digits_value_def dec_digit_digit_char)
  next
    case False
    with 1 show ?thesis
      by (subst str_of_nat.simps) (simp add: digits_value_snoc dec_digit_digit_char)
  qed
qed

lemma takeWhile_digits: "takeWhile (\<lambda>c. dec_digit c \<noteq> None) (str_of_nat n) = str_of_nat n"
  using str_of_nat_digits [of n] by (auto simp: takeWhile_eq_all_conv dec_digit_digit_char)

lemma digit_char_plain:
  assumes "d < 10"
  shows "\<not> is_space (digit_char d)" and "digit_char d \<noteq> CHR ''-''" and "digit_char d \<noteq> CHR ''+''"
    and "digit_char d \<noteq> CHR ''x''" and "digit_char d \<noteq> CHR ''X''"
proof -
  have v: "(of_char (digit_char d) :: nat) = 48 + d"
    using assms by (rule of_char_digit_char)
  show "\<not> is_space (digit_char d)"
    using assms by (simp add: is_space_def v)
  show "digit_char d \<noteq> CHR ''-''"
  proof
    assume "digit_char d = CHR ''-''"
    then have "(of_char (digit_char d) :: nat) = of_char CHR ''-''" by simp
    then show False by (simp add: v)
  qed
  show "digit_char d \<noteq> CHR ''+''"
  proof
    assume "digit_char d = CHR ''+''"
    then have "(of_char (digit_char d) :: nat) = of_char CHR ''+''" by simp
    then show False by (simp add: v)
  qed
  show "digit_char d \<noteq> CHR ''x''"
  proof
    assume "digit_char d = CHR ''x''"
    then have "(of_char (digit_char d) :: nat) = of_char CHR ''x''" by simp
    then show False using assms by (simp add: v)
  qed
  show "digit_char d \<noteq> CHR ''X''"
  proof
    assume "digit_char d = CHR ''X''"
    then have "(of_char (digit_char d) :: nat) = of_char CHR ''X''" by simp
    then show False using assms by (simp add: v)
  qed
qed

lemma parseInt_digits:
  assumes "z \<noteq> []" and "\<forall>c \<in> set z. \<exists>d < 10. c = digit_char d"
    and "takeWhile (\<lambda>c. dec_digit c \<noteq> None) z = z"
  shows "parseInt_string z = exact (int (digits_value dec_digit 10 z))"
    and "parseInt_string (CHR ''-'' # z) = exact (- int (digits_value dec_digit 10 z))"
proof -
  obtain c cs where z: "z = c # cs" using assms(1) by (cases z) auto
  obtain d where d: "d < 10" "c = digit_char d" using assms(2) by (auto simp: z)
  have hex: "take 2 z \<noteq> ''0x''" "take 2 z \<noteq> ''0X''"
  proof -
    show "take 2 z \<noteq> ''0x''"
    proof
      assume a: "take 2 z = ''0x''"
      then obtain c2 cs2 where "cs = c2 # cs2" by (cases cs) (auto simp: z)
      with a have "CHR ''x'' \<in> set z" by (auto simp: z)
      with assms(2) show False by (metis digit_char_plain(4))
    qed
    show "take 2 z \<noteq> ''0X''"
    proof
      assume a: "take 2 z = ''0X''"
      then obtain c2 cs2 where "cs = c2 # cs2" by (cases cs) (auto simp: z)
      with a have "CHR ''X'' \<in> set z" by (auto simp: z)
      with assms(2) show False by (metis digit_char_plain(5))
    qed
  qed
  have sp: "\<not> is_space c" "c \<noteq> CHR ''-''" "c \<noteq> CHR ''+''"
    using d digit_char_plain by auto
  have dw: "dropWhile is_space z = z"
    using sp by (simp add: z)
  have sg: "(case z of [] \<Rightarrow> (1::int, z)
             | c # cs \<Rightarrow> if c = CHR ''-'' then (- 1, cs)
                         else if c = CHR ''+'' then (1, cs) else (1, z)) = (1, z)"
    using sp by (simp add: z)
  have tw: "takeWhile (\<lambda>c. \<exists>y. dec_digit c = Some y) z = z"
    using assms(3) by simp
  show "parseInt_string z = exact (int (digits_value dec_digit 10 z))"
    unfolding parseInt_string_def Let_def dw sg
    using assms(1) by (simp add: hex tw)
  have dw': "dropWhile is_space (CHR ''-'' # z) = CHR ''-'' # z"
    by (simp add: is_space_def)
  show "parseInt_string (CHR ''-'' # z) = exact (- int (digits_value dec_digit 10 z))"
    unfolding parseInt_string_def Let_def dw'
    using assms(1) by (simp add: hex tw)
qed

lemma parseInt_string_decimal: "parseInt_string (str_of_int n) = exact n"
proof (cases "n < 0")
  case True
  then show ?thesis
    using parseInt_digits(2) [OF str_of_nat_not_Nil str_of_nat_digits takeWhile_digits, of "nat (- n)"]
    by (simp add: str_of_int_def digits_value_str_of_nat)
next
  case False
  then show ?thesis
    using parseInt_digits(1) [OF str_of_nat_not_Nil str_of_nat_digits takeWhile_digits, of "nat n"]
    by (simp add: str_of_int_def digits_value_str_of_nat)
qed

lemma parseInt_JNum: "parseInt (JNum n) = Exact n"
  by (simp add: parseInt_def parseInt_string_decimal exact_def safe_Rep Rep_safe_int_inverse)

lemma parseInt_decimal: "safe n \<Longrightarrow> parseInt (JStr (str_of_int n)) = Exact (Abs_safe_int n)"
  by (simp add: parseInt_def parseInt_string_decimal exact_def)

lemma str_of_int_not_Nil: "str_of_int n \<noteq> []"
  by (simp add: str_of_int_def str_of_nat_not_Nil)

lemma parseInt_holds_int: "safe n \<Longrightarrow> holds_int v n \<Longrightarrow> parseInt v = Exact (Abs_safe_int n)"
  by (auto simp: holds_int_def parseInt_JNum parseInt_decimal)

lemma parseInt_bonus:
  "safe n \<Longrightarrow> holds_int v n \<Longrightarrow> parseInt (js_or v (num 0)) = Exact (Abs_safe_int n)"
  by (cases "n = 0")
     (auto simp: holds_int_def js_or_def parseInt_JNum parseInt_decimal str_of_int_not_Nil
        Rep_Abs_safe)

lemma newTotalCTC_ints:
  assumes "safe b" and "safe c" and "safe (b + c)"
    and "holds_int (get ''base_salary'' edited) b" and "holds_int (get ''bonus'' edited) c"
  shows "newTotalCTC edited = Exact (Abs_safe_int (b + c))"
  using assms
  by (simp add: newTotalCTC_def parseInt_holds_int parseInt_bonus exact_def Rep_Abs_safe)

lemma updatedOfferData_ints:
  assumes "safe b" and "safe c" and "safe (b + c)"
    and "holds_int (get ''base_salary'' edited) b" and "holds_int (get ''bonus'' edited) c"
  shows "updatedOfferData edited =
           Followed [(''offer'', JObj (AList.update ''total_ctc'' (num (b + c)) edited)),
                     (''status'', JStr ''Modified'')]"
  by (simp add: updatedOfferData_def newTotalCTC_ints [OF assms] number_value_def)

lemma str_of_int_120000: "str_of_int 120000 = ''120000''"
  by (simp add: str_of_int_def str_of_nat.simps digit_char_values)

section \<open>The stores of the scenarios\<close>

lemma demo_store_eq:
  "demo_store = \<lparr>candidates = mockData_candidates, roles = mockData_roles,
      matches = mockData_matches, offers = mockData_offers, loading = False,
      error = Some ''Unable to connect to the backend. Using demo mode with sample data.'',
      useFallbackData = True\<rparr>"
  by (simp add: demo_store_def bootstrap_def fetchInitialData_def guarded_fetch_def catch_fetch_def
      initial_store_def truthy_str_def interceptor_def Let_def)

lemma live_store_eq:
  "live_store = \<lparr>candidates = mockData_candidates, roles = mockData_roles,
      matches = mockData_matches, offers = mockData_offers, loading = False,
      error = None, useFallbackData = False\<rparr>"
  by (simp add: live_store_def bootstrap_def fetchInitialData_def guarded_fetch_def
      initial_store_def Let_def mockData_candidates_def)

section \<open>Approving an offer\<close>







text \<open>
  C10. In fallback mode, \<open>approveOffer\<close> and \<open>updateOffer\<close> with an identifier that no
  offer of the collection has resolve with their simulated success, leave the store as
  it was and make no call.
\<close>

theorem unknown_offer_unchanged:
  assumes "useFallbackData s"
    and "\<forall>offer \<in> set (offers s). \<not> strict_eq (get ''_id'' offer) (JStr offerId)"
  shows "approveOffer s offerId reply =
           (Inr (JObj [(''message'', JStr ''Simulated offer approval in demo mode'')]), s, []) \<and>
         updateOffer s offerId offerData reply' =
           (Inr (JObj [(''message'', JStr ''Simulated offer update in demo mode'')]), s, [])"
proof -
  have "map (approve_entry offerId) (offers s) = offers s"
    using assms(2) by (intro map_idI) (simp add: approve_entry_def)
  moreover have "map (modify_entry offerId offerData) (offers s) = offers s"
    using assms(2) by (intro map_idI) (simp add: modify_entry_def)
  ultimately show ?thesis
    using assms(1) by (simp add: approveOffer_def updateOffer_def)
qed

theorem unknown_offer_unchanged_witness:
  "useFallbackData demo_store \<and>
   map (get ''_id'') (offers demo_store) = [JStr ''mock1''] \<and>
   approveOffer demo_store ''mock7'' (Rejected (interceptor network_down)) =
     (Inr (JObj [(''message'', JStr ''Simulated offer approval in demo mode'')]), demo_store, []) \<and>
   updateOffer demo_store ''mock7'' [(''status'', JStr ''Approved'')] (Rejected (interceptor network_down)) =
     (Inr (JObj [(''message'', JStr ''Simulated offer update in demo mode'')]), demo_store, [])"
  using unknown_offer_unchanged [of demo_store "''mock7''" "Rejected (interceptor network_down)"
      "[(''status'', JStr ''Approved'')]" "Rejected (interceptor network_down)"]
  by (simp add: demo_store_eq mockData_offers_def get_def)

section \<open>Updating an offer\<close>

lemma get_modify_entry:
  "strict_eq (get ''_id'' offer) (JStr offerId) \<Longrightarrow>
   get k (modify_entry offerId offerData offer) =
     (if k = ''status'' then JStr ''Modified''
      else if k \<in> fst ` set offerData then get k (rev offerData) else get k offer)"
  by (simp add: modify_entry_def get_update get_spread)

text \<open>
  C3, as claimed, fails: \<open>updateOffer\<close> does not compute the total. In fallback mode, a
  patch for \<open>mock1\<close> with base salary 120000, bonus 10000 and total 110000 leaves the
  offer with exactly these three values, and 110000 is not the sum.
\<close>

theorem updateOffer_total_counterexample:
  "map (package ''base_salary'')
     (offers (store_of (updateOffer demo_store ''mock1'' raised_base_patch
        (Rejected (interceptor network_down))))) = [num 120000] \<and>
   map (package ''bonus'')
     (offers (store_of (updateOffer demo_store ''mock1'' raised_base_patch
        (Rejected (interceptor network_down))))) = [num 10000] \<and>
   map (package ''total_ctc'')
     (offers (store_of (updateOffer demo_store ''mock1'' raised_base_patch
        (Rejected (interceptor network_down))))) = [num 110000] \<and>
   map (package ''total_ctc'')
     (offers (store_of (updateOffer demo_store ''mock1'' raised_base_patch
        (Rejected (interceptor network_down))))) \<noteq> [num (120000 + 10000)]"
  by (simp add: demo_store_eq updateOffer_def store_of_def mockData_offers_def modify_entry_def
      raised_base_patch_def spread_def package_def get_def opt_get_def Abs_safe_eq safe_def)

lemma package_modify_entry:
  assumes "strict_eq (get ''_id'' offer) (JStr offerId)"
  shows "package k (modify_entry offerId offerData offer) =
           (if ''offer'' \<in> fst ` set offerData then opt_get k (get ''offer'' (rev offerData))
            else package k offer)"
  by (simp add: package_def get_modify_entry [OF assms])

lemma modify_entry_other:
  "\<not> strict_eq (get ''_id'' offer) (JStr offerId) \<Longrightarrow> modify_entry offerId offerData offer = offer"
  by (simp add: modify_entry_def)

lemma calls_made_handleSaveEdit:
  assumes "editedOffer pg = Some edited" and "selectedOffer pg = Some selected"
    and "updatedOfferData edited = Followed patch"
  shows "calls_made (handleSaveEdit pg reply) =
           Followed [offerService_updateOffer (get ''_id'' selected) patch]"
  using assms by (cases reply) (simp_all add: handleSaveEdit_def calls_made_def Let_def)

text \<open>
  C3, amended. \<open>updateOffer\<close> never computes \<open>total_ctc\<close>: it stores the total it is
  given. Its fallback branch resolves with the simulated success and makes no call; it
  keeps the number and the order of the offers; an offer with the identifier gets the
  status \<open>Modified\<close> and takes every other property that the patch names from the patch
  (the last value, should the patch name it twice), so its \<open>total_ctc\<close> is the one of the
  package in the patch, or its old one when the patch has no package; an offer with
  another identifier is unchanged; updating a second time with the same patch changes
  nothing. Its live branch puts the reply of the server in the place of the offer. The
  sum is computed by \<open>handleSaveEdit\<close> of the offer page, for the patch it sends to the
  gateway: when base salary and bonus hold integers, as numbers or as decimal numerals,
  and these and their sum are safe integers, the patch is the edited package with
  \<open>total_ctc = base_salary + bonus\<close> and the status \<open>Modified\<close>, and the call made is
  \<open>offerService.updateOffer\<close> with that patch.
\<close>

theorem updateOffer_stores_patch_total:
  "(useFallbackData s \<longrightarrow>
      result_of (updateOffer s offerId offerData reply)
        = Inr (JObj [(''message'', JStr ''Simulated offer update in demo mode'')]) \<and>
      calls_of (updateOffer s offerId offerData reply) = [] \<and>
      length (offers (store_of (updateOffer s offerId offerData reply))) = length (offers s) \<and>
      (\<forall>i < length (offers s).
          if strict_eq (get ''_id'' (offers s ! i)) (JStr offerId)
          then get ''status'' (offers (store_of (updateOffer s offerId offerData reply)) ! i)
                 = JStr ''Modified'' \<and>
               package ''total_ctc'' (offers (store_of (updateOffer s offerId offerData reply)) ! i)
                 = (if ''offer'' \<in> fst ` set offerData
                    then opt_get ''total_ctc'' (get ''offer'' (rev offerData))
                    else package ''total_ctc'' (offers s ! i)) \<and>
               (\<forall>k. k \<noteq> ''status'' \<longrightarrow>
                  get k (offers (store_of (updateOffer s offerId offerData reply)) ! i)
                    = (if k \<in> fst ` set offerData then get k (rev offerData)
                       else get k (offers s ! i)))
          else offers (store_of (updateOffer s offerId offerData reply)) ! i = offers s ! i) \<and>
      offers (store_of (updateOffer (store_of (updateOffer s offerId offerData reply))
                          offerId offerData reply2))
        = offers (store_of (updateOffer s offerId offerData reply))) \<and>
   (\<not> useFallbackData s \<and> reply = Resolved response \<longrightarrow>
      result_of (updateOffer s offerId offerData reply) = Inr (JObj response) \<and>
      length (offers (store_of (updateOffer s offerId offerData reply))) = length (offers s) \<and>
      (\<forall>i < length (offers s).
          offers (store_of (updateOffer s offerId offerData reply)) ! i
            = (if strict_eq (get ''_id'' (offers s ! i)) (JStr offerId) then response
               else offers s ! i))) \<and>
   (safe b \<and> safe c \<and> safe (b + c) \<and>
    holds_int (get ''base_salary'' edited) b \<and> holds_int (get ''bonus'' edited) c \<longrightarrow>
      updatedOfferData edited =
        Followed [(''offer'', JObj (AList.update ''total_ctc'' (num (b + c)) edited)),
                  (''status'', JStr ''Modified'')]) \<and>
   (editedOffer pg = Some edited \<and> selectedOffer pg = Some selected \<and>
    updatedOfferData edited = Followed patch \<longrightarrow>
      calls_made (handleSaveEdit pg reply3)
        = Followed [offerService_updateOffer (get ''_id'' selected) patch])"
proof -
  let ?new = "offers (store_of (updateOffer s offerId offerData reply))"
  have fb: "useFallbackData s \<longrightarrow>
      result_of (updateOffer s offerId offerData reply)
        = Inr (JObj [(''message'', JStr ''Simulated offer update in demo mode'')]) \<and>
      calls_of (updateOffer s offerId offerData reply) = [] \<and>
      length ?new = length (offers s) \<and>
      (\<forall>i < length (offers s).
          if strict_eq (get ''_id'' (offers s ! i)) (JStr offerId)
          then get ''status'' (?new ! i) = JStr ''Modified'' \<and>
               package ''total_ctc'' (?new ! i)
                 = (if ''offer'' \<in> fst ` set offerData
                    then opt_get ''total_ctc'' (get ''offer'' (rev offerData))
                    else package ''total_ctc'' (offers s ! i)) \<and>
               (\<forall>k. k \<noteq> ''status'' \<longrightarrow>
                  get k (?new ! i)
                    = (if k \<in> fst ` set offerData then get k (rev offerData)
                       else get k (offers s ! i)))
          else ?new ! i = offers s ! i) \<and>
      offers (store_of (updateOffer (store_of (updateOffer s offerId offerData reply))
                          offerId offerData reply2))
        = ?new"
  proof
    assume f: "useFallbackData s"
    have new: "?new = map (modify_entry offerId offerData) (offers s)"
      using f by (simp add: updateOffer_def store_of_def)
    have res: "result_of (updateOffer s offerId offerData reply)
        = Inr (JObj [(''message'', JStr ''Simulated offer update in demo mode'')])"
      and cl: "calls_of (updateOffer s offerId offerData reply) = []"
      using f by (simp_all add: updateOffer_def result_of_def calls_of_def)
    have again: "offers (store_of (updateOffer (store_of (updateOffer s offerId offerData reply))
                          offerId offerData reply2)) = ?new"
      using f by (simp add: updateOffer_def store_of_def modify_entry_idem)
    have each: "if strict_eq (get ''_id'' (offers s ! i)) (JStr offerId)
          then get ''status'' (?new ! i) = JStr ''Modified'' \<and>
               package ''total_ctc'' (?new ! i)
                 = (if ''offer'' \<in> fst ` set offerData
                    then opt_get ''total_ctc'' (get ''offer'' (rev offerData))
                    else package ''total_ctc'' (offers s ! i)) \<and>
               (\<forall>k. k \<noteq> ''status'' \<longrightarrow>
                  get k (?new ! i)
                    = (if k \<in> fst ` set offerData then get k (rev offerData)
                       else get k (offers s ! i)))
          else ?new ! i = offers s ! i"
      if i: "i < length (offers s)" for i
    proof (cases "strict_eq (get ''_id'' (offers s ! i)) (JStr offerId)")
      case True
      then show ?thesis
        using i by (simp add: new get_modify_entry package_modify_entry)
    next
      case False
      then show ?thesis
        using i by (simp add: new modify_entry_other)
    qed
    show "result_of (updateOffer s offerId offerData reply)
        = Inr (JObj [(''message'', JStr ''Simulated offer update in demo mode'')]) \<and>
      calls_of (updateOffer s offerId offerData reply) = [] \<and>
      length ?new = length (offers s) \<and>
      (\<forall>i < length (offers s).
          if strict_eq (get ''_id'' (offers s ! i)) (JStr offerId)
          then get ''status'' (?new ! i) = JStr ''Modified'' \<and>
               package ''total_ctc'' (?new ! i)
                 = (if ''offer'' \<in> fst ` set offerData
                    then opt_get ''total_ctc'' (get ''offer'' (rev offerData))
                    else package ''total_ctc'' (offers s ! i)) \<and>
               (\<forall>k. k \<noteq> ''status'' \<longrightarrow>
                  get k (?new ! i)
                    = (if k \<in> fst ` set offerData then get k (rev offerData)
                       else get k (offers s ! i)))
          else ?new ! i = offers s ! i) \<and>
      offers (store_of (updateOffer (store_of (updateOffer s offerId offerData reply))
                          offerId offerData reply2))
        = ?new"
    proof (intro conjI allI impI)
      show "length ?new = length (offers s)"
        by (simp add: new)
    qed (use res cl again each in blast)+
  qed
  have lv: "\<not> useFallbackData s \<and> reply = Resolved response \<longrightarrow>
      result_of (updateOffer s offerId offerData reply) = Inr (JObj response) \<and>
      length ?new = length (offers s) \<and>
      (\<forall>i < length (offers s).
          ?new ! i = (if strict_eq (get ''_id'' (offers s ! i)) (JStr offerId) then response
                      else offers s ! i))"
    by (simp add: updateOffer_def store_of_def result_of_def replace_entry_def)
  have sm: "safe b \<and> safe c \<and> safe (b + c) \<and>
    holds_int (get ''base_salary'' edited) b \<and> holds_int (get ''bonus'' edited) c \<longrightarrow>
      updatedOfferData edited =
        Followed [(''offer'', JObj (AList.update ''total_ctc'' (num (b + c)) edited)),
                  (''status'', JStr ''Modified'')]"
    by (simp add: updatedOfferData_ints)
  have hs: "editedOffer pg = Some edited \<and> selectedOffer pg = Some selected \<and>
    updatedOfferData edited = Followed patch \<longrightarrow>
      calls_made (handleSaveEdit pg reply3)
        = Followed [offerService_updateOffer (get ''_id'' selected) patch]"
    by (simp add: calls_made_handleSaveEdit)
  from fb lv sm hs show ?thesis by blast
qed

text \<open>
  The patch with the old total merged into \<open>mock1\<close> in fallback mode; the same update
  against a live backend; and the edit of \<open>mock1\<close> with 120000 typed as base salary, for
  which the page sends the total 130000.
\<close>

theorem updateOffer_stores_patch_total_witness:
  "useFallbackData demo_store \<and>
   map (get ''status'')
     (offers (store_of (updateOffer demo_store ''mock1'' raised_base_patch
        (Rejected (interceptor network_down))))) = [JStr ''Modified''] \<and>
   map (package ''total_ctc'')
     (offers (store_of (updateOffer demo_store ''mock1'' raised_base_patch
        (Rejected (interceptor network_down))))) = [num 110000] \<and>
   \<not> useFallbackData live_store \<and>
   offers (store_of (updateOffer live_store ''mock1'' raised_base_patch
        (Resolved [(''_id'', JStr ''mock1''), (''status'', JStr ''Pending Approval'')])))
     = [[(''_id'', JStr ''mock1''), (''status'', JStr ''Pending Approval'')]] \<and>
   safe 120000 \<and> safe 10000 \<and> safe (120000 + 10000) \<and>
   holds_int (get ''base_salary'' edited_mock1) 120000 \<and>
   holds_int (get ''bonus'' edited_mock1) 10000 \<and>
   updatedOfferData edited_mock1 = Followed saved_patch \<and>
   calls_made (handleSaveEdit editing_page (Rejected (interceptor network_down)))
     = Followed [offerService_updateOffer (JStr ''mock1'') saved_patch]"
proof -
  have sf: "safe 120000" "safe 10000" "safe (120000 + 10000)"
    by (simp_all add: safe_def)
  have hb: "holds_int (get ''base_salary'' edited_mock1) 120000"
    and hc: "holds_int (get ''bonus'' edited_mock1) 10000"
    by (simp_all add: holds_int_def edited_mock1_def get_def str_of_int_120000)
  have one: "length (offers demo_store) = 1" "length (offers live_store) = 1"
    by (simp_all add: demo_store_eq live_store_eq mockData_offers_def)
  have id1: "strict_eq (get ''_id'' (offers demo_store ! 0)) (JStr ''mock1'')"
    "strict_eq (get ''_id'' (offers live_store ! 0)) (JStr ''mock1'')"
    by (simp_all add: demo_store_eq live_store_eq mockData_offers_def get_def)
  have patch: "updatedOfferData edited_mock1 = Followed saved_patch"
    using updateOffer_stores_patch_total
      [where edited = edited_mock1 and b = 120000 and c = 10000] sf hb hc
    by (simp add: saved_patch_def edited_mock1_def)
  have call: "calls_made (handleSaveEdit editing_page (Rejected (interceptor network_down)))
     = Followed [offerService_updateOffer (JStr ''mock1'') saved_patch]"
    using updateOffer_stores_patch_total
      [where pg = editing_page and edited = edited_mock1 and selected = "hd mockData_offers"
         and patch = saved_patch and ?reply3.0 = "Rejected (interceptor network_down)"] patch
    by (simp add: editing_page_def mockData_offers_def get_def)
  have fb: "map (get ''status'')
     (offers (store_of (updateOffer demo_store ''mock1'' raised_base_patch
        (Rejected (interceptor network_down))))) = [JStr ''Modified''] \<and>
   map (package ''total_ctc'')
     (offers (store_of (updateOffer demo_store ''mock1'' raised_base_patch
        (Rejected (interceptor network_down))))) = [num 110000]"
    using updateOffer_stores_patch_total
      [where s = demo_store and offerId = "''mock1''" and offerData = raised_base_patch
         and reply = "Rejected (interceptor network_down)"] one id1
    by (simp add: demo_store_eq updateOffer_def store_of_def mockData_offers_def modify_entry_def
        raised_base_patch_def spread_def package_def get_def opt_get_def)
  have lv: "offers (store_of (updateOffer live_store ''mock1'' raised_base_patch
        (Resolved [(''_id'', JStr ''mock1''), (''status'', JStr ''Pending Approval'')])))
     = [[(''_id'', JStr ''mock1''), (''status'', JStr ''Pending Approval'')]]"
    using updateOffer_stores_patch_total
      [where s = live_store and offerId = "''mock1''" and offerData = raised_base_patch
         and reply = "Resolved [(''_id'', JStr ''mock1''), (''status'', JStr ''Pending Approval'')]"
         and response = "[(''_id'', JStr ''mock1''), (''status'', JStr ''Pending Approval'')]"]
      one id1
    by (simp add: live_store_eq updateOffer_def store_of_def mockData_offers_def replace_entry_def
        get_def)
  show ?thesis
    using sf hb hc patch call fb lv
    by (simp add: demo_store_eq live_store_eq)
qed

section \<open>Creating and deleting roles\<close>

lemma refreshRoles_fallback: "useFallbackData s \<Longrightarrow> refreshRoles s refreshed = (Inr mockData_roles, s, [])"
  by (simp add: refreshRoles_def)

text \<open>
  C8, as claimed, fails: there is no fallback branch for creating a role. In fallback
  mode with the single role \<open>mock1\<close>, submitting the dialog for a new role \<open>X\<close> calls
  \<open>roleService.createRole\<close>, and the roles of the store are the same single role
  afterwards, whether the gateway accepts the role or is unreachable.
\<close>

theorem createRole_fallback_counterexample:
  "useFallbackData single_role_store \<and>
   calls_of (handleSubmit single_role_store add_X_page (Resolved created_X) (Resolved []))
     = [roleService_createRole (roleData (form add_X_page))] \<and>
   roles (store_of (handleSubmit single_role_store add_X_page (Resolved created_X) (Resolved [])))
     = [[(''_id'', JStr ''mock1''), (''required_skills'', JArr [JStr ''React''])]] \<and>
   calls_of (handleSubmit single_role_store add_X_page (Rejected (interceptor network_down))
               (Rejected (interceptor network_down)))
     = [roleService_createRole (roleData (form add_X_page))] \<and>
   roles (store_of (handleSubmit single_role_store add_X_page (Rejected (interceptor network_down))
                      (Rejected (interceptor network_down))))
     = [[(''_id'', JStr ''mock1''), (''required_skills'', JArr [JStr ''React''])]]"
  by (simp add: single_role_store_def demo_store_eq add_X_page_def idle_page_def handleSubmit_def
      refreshRoles_def calls_of_def store_of_def)

text \<open>
  C8, amended. In fallback mode, creating a role (\<open>handleSubmit\<close> with the dialog in mode
  \<open>add\<close>) makes exactly one call, \<open>roleService.createRole\<close> with the role data of the
  form, and leaves the store as it was, whatever the gateway replies: no role is appended,
  no identifier is synthesized, and the roles it held are unchanged.
\<close>

theorem createRole_fallback_calls_gateway:
  assumes "useFallbackData s" and "dialogMode p = Add"
  shows "calls_of (handleSubmit s p reply refreshed) = [roleService_createRole (roleData (form p))] \<and>
         store_of (handleSubmit s p reply refreshed) = s"
  using assms
  by (cases reply) (simp_all add: handleSubmit_def refreshRoles_fallback calls_of_def store_of_def)

theorem createRole_fallback_calls_gateway_witness:
  "useFallbackData single_role_store \<and> dialogMode add_X_page = Add \<and>
   get ''title'' (roleData (form add_X_page)) = JStr ''X'' \<and>
   get ''required_skills'' (roleData (form add_X_page)) = JArr [JStr ''X''] \<and>
   calls_of (handleSubmit single_role_store add_X_page (Resolved created_X) (Resolved []))
     = [roleService_createRole (roleData (form add_X_page))] \<and>
   store_of (handleSubmit single_role_store add_X_page (Resolved created_X) (Resolved []))
     = single_role_store"
  using createRole_fallback_calls_gateway [of single_role_store add_X_page "Resolved created_X" "Resolved []"]
  by (simp add: single_role_store_def demo_store_eq add_X_page_def idle_page_def roleData_def
      get_def skill_list_def trim_def is_space_def)

text \<open>
  C7, as claimed, fails for the collection of the store. In live mode with the two sample
  roles, deleting \<open>mock1\<close> against the backend modelled above replaces the roles of the
  store with the list of active roles: \<open>mock1\<close> is no longer in it, and the reference of
  the match \<open>mock1\<close> to the role \<open>mock1\<close> no longer resolves there.
\<close>

theorem deleteRole_store_counterexample:
  "\<not> useFallbackData live_store \<and>
   map (get ''_id'') (roles live_store) = [JStr ''mock1'', JStr ''mock2''] \<and>
   map (get ''_id'')
     (roles (store_of (handleDeleteRole live_store idle_page ''mock1'' (Resolved JNull)
        (Resolved (backend_getRoles True (backend_deleteRole ''mock1'' mockData_roles))))))
     = [JStr ''mock2''] \<and>
   map (get ''role_id'') (matches live_store) = [JStr ''mock1'', JStr ''mock2''] \<and>
   find_role (JStr ''mock1'')
     (roles (store_of (handleDeleteRole live_store idle_page ''mock1'' (Resolved JNull)
        (Resolved (backend_getRoles True (backend_deleteRole ''mock1'' mockData_roles))))))
     = None"
  by (simp add: live_store_eq handleDeleteRole_def refreshRoles_def store_of_def
      backend_getRoles_def backend_deleteRole_def mockData_roles_def mockData_matches_def
      get_def find_role_def)

lemma backend_deleteRole_get:
  "k \<noteq> ''is_active'' \<Longrightarrow> map (get k) (backend_deleteRole roleId db) = map (get k) db"
  by (simp add: backend_deleteRole_def get_update)

lemma backend_deleteRole_inactive:
  assumes "r \<in> set (backend_deleteRole roleId db)" and "strict_eq (get ''_id'' r) (JStr roleId)"
  shows "get ''is_active'' r = JBool False"
proof -
  from assms(1) obtain r0 where r0: "r0 \<in> set db"
    and r: "r = (if strict_eq (get ''_id'' r0) (JStr roleId)
                 then AList.update ''is_active'' (JBool False) r0 else r0)"
    by (auto simp: backend_deleteRole_def)
  show ?thesis
  proof (cases "strict_eq (get ''_id'' r0) (JStr roleId)")
    case True
    then show ?thesis by (simp add: r get_update)
  next
    case False
    with assms(2) show ?thesis by (simp add: r)
  qed
qed

lemma backend_deleteRole_keeps:
  assumes "find_role (JStr roleId) db \<noteq> None"
  shows "find_role (JStr roleId) (backend_deleteRole roleId db) \<noteq> None"
proof -
  from assms obtain r where r: "r \<in> set db" "strict_eq (get ''_id'' r) (JStr roleId)"
    by (auto simp: find_role_def find_None_iff)
  let ?r' = "AList.update ''is_active'' (JBool False) r"
  have "?r' \<in> set (backend_deleteRole roleId db)"
    using r by (force simp: backend_deleteRole_def)
  moreover have "strict_eq (get ''_id'' ?r') (JStr roleId)"
    using r(2) by (simp add: get_update)
  ultimately show ?thesis
    by (auto simp: find_role_def find_None_iff)
qed

lemma backend_active_list_drops:
  "find_role (JStr roleId) (backend_getRoles True (backend_deleteRole roleId db)) = None"
proof -
  have "\<not> truthy (get ''is_active'' r)"
    if "r \<in> set (backend_deleteRole roleId db)" and "strict_eq (get ''_id'' r) (JStr roleId)" for r
    using backend_deleteRole_inactive [OF that] by simp
  then show ?thesis
    by (auto simp: find_role_def find_None_iff backend_getRoles_def)
qed

text \<open>
  C7, amended. Deleting a role never removes it from the collection of the backend: the
  backend changes no property but \<open>is_active\<close>, sets \<open>is_active\<close> to false on the roles
  with the identifier, and a role that could be found by the identifier still can. The
  store is not edited locally: in live mode, when both calls succeed, its roles become the
  answer to \<open>getRoles\<close> with \<open>active_only = true\<close>, in which the identifier is no longer
  found; in fallback mode, or when either call is rejected, its roles stay as they were.
\<close>

theorem deleteRole_soft_on_backend:
  "(k \<noteq> ''is_active'' \<longrightarrow> map (get k) (backend_deleteRole roleId db) = map (get k) db) \<and>
   (\<forall>r \<in> set (backend_deleteRole roleId db).
      strict_eq (get ''_id'' r) (JStr roleId) \<longrightarrow> get ''is_active'' r = JBool False) \<and>
   (find_role (JStr roleId) db \<noteq> None \<longrightarrow>
      find_role (JStr roleId) (backend_deleteRole roleId db) \<noteq> None) \<and>
   find_role (JStr roleId) (backend_getRoles True (backend_deleteRole roleId db)) = None \<and>
   (\<not> useFallbackData s \<longrightarrow>
      roles (store_of (handleDeleteRole s p roleId (Resolved body)
               (Resolved (backend_getRoles True (backend_deleteRole roleId db)))))
        = backend_getRoles True (backend_deleteRole roleId db) \<and>
      calls_of (handleDeleteRole s p roleId (Resolved body)
               (Resolved (backend_getRoles True (backend_deleteRole roleId db))))
        = [roleService_deleteRole (JStr roleId), roleService_getRoles True]) \<and>
   (useFallbackData s \<or> reply = Rejected err \<or> refreshed = Rejected err' \<longrightarrow>
      roles (store_of (handleDeleteRole s p roleId reply refreshed)) = roles s)"
proof -
  have live: "\<not> useFallbackData s \<longrightarrow>
      roles (store_of (handleDeleteRole s p roleId (Resolved body)
               (Resolved (backend_getRoles True (backend_deleteRole roleId db)))))
        = backend_getRoles True (backend_deleteRole roleId db) \<and>
      calls_of (handleDeleteRole s p roleId (Resolved body)
               (Resolved (backend_getRoles True (backend_deleteRole roleId db))))
        = [roleService_deleteRole (JStr roleId), roleService_getRoles True]"
    by (simp add: handleDeleteRole_def refreshRoles_def store_of_def calls_of_def)
  have same: "useFallbackData s \<or> reply = Rejected err \<or> refreshed = Rejected err' \<longrightarrow>
      roles (store_of (handleDeleteRole s p roleId reply refreshed)) = roles s"
    by (cases reply; cases refreshed)
       (auto simp: handleDeleteRole_def refreshRoles_def store_of_def)
  show ?thesis
    using backend_deleteRole_get [of k roleId db] backend_deleteRole_inactive [of _ roleId db]
      backend_deleteRole_keeps [of roleId db] backend_active_list_drops [of roleId db] live same
    by blast
qed

theorem deleteRole_soft_on_backend_witness:
  "find_role (JStr ''mock1'') mockData_roles \<noteq> None \<and>
   \<not> useFallbackData live_store \<and> useFallbackData demo_store \<and>
   map (get ''_id'') (backend_deleteRole ''mock1'' mockData_roles) = [JStr ''mock1'', JStr ''mock2''] \<and>
   map (get ''is_active'') (backend_deleteRole ''mock1'' mockData_roles) = [JBool False, JBool True] \<and>
   find_role (JStr ''mock1'') (backend_deleteRole ''mock1'' mockData_roles) \<noteq> None \<and>
   map (get ''_id'')
     (roles (store_of (handleDeleteRole live_store idle_page ''mock1'' (Resolved JNull)
        (Resolved (backend_getRoles True (backend_deleteRole ''mock1'' mockData_roles))))))
     = [JStr ''mock2''] \<and>
   roles (store_of (handleDeleteRole demo_store idle_page ''mock1'' (Resolved JNull)
        (Resolved (backend_getRoles True (backend_deleteRole ''mock1'' mockData_roles)))))
     = mockData_roles"
  using deleteRole_soft_on_backend [of "''_id''" "''mock1''" mockData_roles live_store idle_page JNull
      "Resolved JNull" "interceptor network_down"
      "Resolved (backend_getRoles True (backend_deleteRole ''mock1'' mockData_roles))"
      "interceptor network_down"]
    deleteRole_soft_on_backend [of "''_id''" "''mock1''" mockData_roles demo_store idle_page JNull
      "Resolved JNull" "interceptor network_down"
      "Resolved (backend_getRoles True (backend_deleteRole ''mock1'' mockData_roles))"
      "interceptor network_down"]
  by (simp add: live_store_eq demo_store_eq)
     (simp add: backend_getRoles_def backend_deleteRole_def mockData_roles_def get_def find_role_def)

section \<open>The interceptor\<close>

text \<open>
  C9. For a response with status 404 whose body carries a non-empty detail text, such as
  \<open>{detail: 'role not found'}\<close>, the error that the interceptor rejects with carries a
  user message made of the class of the status, \<open>Not Found: \<close>, followed by the detail
  text: the message starts with the class and contains the detail.
\<close>

theorem interceptor_404:
  assumes "opt_get ''detail'' data = JStr d" and "d \<noteq> []"
  shows "userMessage (interceptor \<lparr>error_response = Some (Abs_safe_int 404, data),
                                   error_request = rq, error_code = c\<rparr>)
           = Some (''Not Found: '' @ d) \<and>
         prefix ''Not Found: '' (errorMessage \<lparr>error_response = Some (Abs_safe_int 404, data),
                                              error_request = rq, error_code = c\<rparr>) \<and>
         sublist d (errorMessage \<lparr>error_response = Some (Abs_safe_int 404, data),
                                   error_request = rq, error_code = c\<rparr>)"
proof -
  have m: "errorMessage \<lparr>error_response = Some (Abs_safe_int 404, data),
                         error_request = rq, error_code = c\<rparr>
             = ''Not Found: '' @ d"
    using assms by (simp add: errorMessage_def js_or_def Rep_Abs_safe safe_def)
  have "sublist d (''Not Found: '' @ d @ [])"
    by (rule sublist_appendI)
  then show ?thesis
    by (simp add: interceptor_def m)
qed

theorem interceptor_404_witness:
  "opt_get ''detail'' (JObj [(''detail'', JStr ''role not found'')]) = JStr ''role not found'' \<and>
   userMessage (interceptor \<lparr>error_response =
                               Some (Abs_safe_int 404, JObj [(''detail'', JStr ''role not found'')]),
                             error_request = True, error_code = Some ''ERR_BAD_REQUEST''\<rparr>)
     = Some ''Not Found: role not found''"
  using interceptor_404 [of "JObj [(''detail'', JStr ''role not found'')]" "''role not found''"
      True "Some ''ERR_BAD_REQUEST''"]
  by (simp add: opt_get_def get_def)

end
